theory Spec2Isabelle
  imports Complex_Main
begin

section \<open>Conventions of the embedding\<close>

text \<open>
  The program is the phone-case customiser of \<^verbatim>\<open>src/App.tsx\<close> (template import, auto-fit,
  print compositor) and \<^verbatim>\<open>src/components/PhoneEditor.tsx\<close> (interactive zoom).

  \<^item> A JavaScript number is a \<^typ>\<open>real\<close>: the finite doubles, computed exactly. The
    quotients of the touch handlers, whose divisors can be zero, are computed with the
    infinities and NaN of the source; elsewhere the theorems say which divisor they rely
    on being non-zero.
  \<^item> A JavaScript string built by a template literal is a list of pieces, the literal
    chunks and the interpolated numbers in the order of the literal; the decimal
    rendering of a number is the host's and is left to it.
  \<^item> A thrown \<^verbatim>\<open>Error\<close> and a rejected promise are the left summand of a sum type.
  \<^item> Text outside ASCII is given by its UTF-8 bytes.
\<close>

datatype piece = Lit string | Num real

type_synonym tstring = "piece list"

text \<open>The truth value JavaScript gives a string: every string but the empty one.\<close>

fun nonEmptyPiece :: "piece \<Rightarrow> bool" where
  "nonEmptyPiece (Lit s) = (s \<noteq> [])"
| "nonEmptyPiece (Num r) = True"

definition truthy :: "tstring \<Rightarrow> bool" where
  "truthy p = list_ex nonEmptyPiece p"

section \<open>Data model (types.ts)\<close>

record PhoneModel =
  model_id :: tstring
  model_name :: string
  brand :: string
  width :: real
  height :: real
  minX :: "real option"
  minY :: "real option"
  screenRatio :: real
  svgPath :: tstring
  cameraPath :: tstring
  safeZonePath :: tstring

record TextElement =
  text_id :: string
  text_content :: string
  fontFamily :: string
  text_x :: real
  text_y :: real
  text_scale :: real
  text_rotation :: real
  fontSize :: real
  color :: string

record DesignState =
  scale :: real
  design_x :: real
  design_y :: real
  rotation :: real
  imageSrc :: "string option"
  imgWidth :: "real option"
  imgHeight :: "real option"
  textElements :: "TextElement list"

section \<open>Template import: the shapes of the rendered document\<close>

text \<open>
  One element found by \<^verbatim>\<open>querySelectorAll('path, rect, circle, ellipse')\<close>.
  \<open>tagName\<close> is the lower-cased tag; \<open>numAttr k\<close> is \<^verbatim>\<open>parseFloat\<close> of attribute \<open>k\<close>, and
  \<open>None\<close> when the attribute is absent or empty (the cases in which the source's
  \<^verbatim>\<open>|| '0'\<close> default applies); \<open>dAttr\<close> is the \<^verbatim>\<open>d\<close> attribute; \<open>fill\<close> and \<open>stroke\<close> are
  the computed style's strings; \<open>pathBBox\<close> is the box the host computes for a
  \<^verbatim>\<open>path\<close> element.
\<close>

record bbox =
  bbox_x :: real
  bbox_y :: real
  bbox_width :: real
  bbox_height :: real

record element =
  tagName :: string
  numAttr :: "string \<Rightarrow> real option"
  dAttr :: "string option"
  fill :: string
  stroke :: string
  pathBBox :: bbox

subsection \<open>getShapeColorType\<close>

datatype colorType = Magenta | Cyan | Red | Unknown

record rgb =
  rgb_r :: nat
  rgb_g :: nat
  rgb_b :: nat

definition isDigit :: "char \<Rightarrow> bool" where
  "isDigit c = (c \<in> set ''0123456789'')"

text \<open>\<^verbatim>\<open>str.match(/\d+/g)\<close>: the maximal runs of digits, left to right.\<close>

fun digitRuns :: "string \<Rightarrow> string \<Rightarrow> string list" where
  "digitRuns cur [] = (if cur = [] then [] else [cur])"
| "digitRuns cur (c # cs) =
     (if isDigit c then digitRuns (cur @ [c]) cs
      else if cur = [] then digitRuns [] cs
      else cur # digitRuns [] cs)"

text \<open>\<^verbatim>\<open>parseInt\<close> of a run of digits.\<close>

definition parseInt :: "string \<Rightarrow> nat" where
  "parseInt s = foldl (\<lambda>n c. 10 * n + (of_char c - 48)) 0 s"

definition parseRGB :: "string \<Rightarrow> rgb option" where
  "parseRGB str =
     (case digitRuns [] str of
        a # b # c # rest \<Rightarrow> Some \<lparr>rgb_r = parseInt a, rgb_g = parseInt b, rgb_b = parseInt c\<rparr>
      | _ \<Rightarrow> None)"

text \<open>The class a parsed colour belongs to, in the order the source tests them.\<close>

definition classOfRGB :: "rgb \<Rightarrow> colorType" where
  "classOfRGB c =
     (if (rgb_r c = 255 \<and> rgb_g c = 0 \<and> rgb_b c = 255) \<or>
         (rgb_r c = 236 \<and> rgb_g c = 0 \<and> rgb_b c = 140) then Magenta
      else if (rgb_r c = 0 \<and> rgb_g c = 255 \<and> rgb_b c = 255) \<or>
              (rgb_r c = 0 \<and> rgb_g c = 174 \<and> rgb_b c = 239) then Cyan
      else if (rgb_r c = 255 \<and> rgb_g c = 0 \<and> rgb_b c = 0) \<or>
              (rgb_r c = 237 \<and> rgb_g c = 28 \<and> rgb_b c = 36) then Red
      else Unknown)"

text \<open>The \<^verbatim>\<open>for (const c of candidates)\<close> loop.\<close>

fun scanCandidates :: "string list \<Rightarrow> colorType" where
  "scanCandidates [] = Unknown"
| "scanCandidates (c # cs) =
     (if c = [] \<or> c = ''none'' \<or> c = ''transparent'' then scanCandidates cs
      else case parseRGB c of
             None \<Rightarrow> scanCandidates cs
           | Some v \<Rightarrow> (if classOfRGB v = Unknown then scanCandidates cs else classOfRGB v))"

definition getShapeColorType :: "element \<Rightarrow> colorType" where
  "getShapeColorType el = scanCandidates [fill el, stroke el]"

text \<open>The class one colour string matches, and \<open>Unknown\<close> when it matches none.\<close>

definition colorClass :: "string \<Rightarrow> colorType" where
  "colorClass c =
     (if c = [] \<or> c = ''none'' \<or> c = ''transparent'' then Unknown
      else case parseRGB c of None \<Rightarrow> Unknown | Some v \<Rightarrow> classOfRGB v)"

subsection \<open>shapeToPath\<close>

text \<open>\<^verbatim>\<open>parseFloat(el.getAttribute(k) || '0')\<close>.\<close>

definition num :: "element \<Rightarrow> string \<Rightarrow> real" where
  "num el k = (case numAttr el k of None \<Rightarrow> 0 | Some v \<Rightarrow> v)"

text \<open>\<^verbatim>\<open>parseFloat(el.getAttribute('ry') || el.getAttribute('rx') || '0')\<close>.\<close>

definition numRy :: "element \<Rightarrow> real" where
  "numRy el = (case numAttr el ''ry'' of Some v \<Rightarrow> v | None \<Rightarrow> num el ''rx'')"

definition roundedRectPath :: "real \<Rightarrow> real \<Rightarrow> real \<Rightarrow> real \<Rightarrow> real \<Rightarrow> real \<Rightarrow> tstring" where
  "roundedRectPath x y w h maxRx maxRy =
     [Lit ''M '', Num (x + maxRx), Lit '' '', Num y,
      Lit '' L '', Num (x + w - maxRx), Lit '' '', Num y,
      Lit '' Q '', Num (x + w), Lit '' '', Num y, Lit '' '', Num (x + w), Lit '' '', Num (y + maxRy),
      Lit '' L '', Num (x + w), Lit '' '', Num (y + h - maxRy),
      Lit '' Q '', Num (x + w), Lit '' '', Num (y + h), Lit '' '', Num (x + w - maxRx), Lit '' '', Num (y + h),
      Lit '' L '', Num (x + maxRx), Lit '' '', Num (y + h),
      Lit '' Q '', Num x, Lit '' '', Num (y + h), Lit '' '', Num x, Lit '' '', Num (y + h - maxRy),
      Lit '' L '', Num x, Lit '' '', Num (y + maxRy),
      Lit '' Q '', Num x, Lit '' '', Num y, Lit '' '', Num (x + maxRx), Lit '' '', Num y,
      Lit '' Z'']"

definition simpleRectPath :: "real \<Rightarrow> real \<Rightarrow> real \<Rightarrow> real \<Rightarrow> tstring" where
  "simpleRectPath x y w h =
     [Lit ''M '', Num x, Lit '' '', Num y,
      Lit '' L '', Num (x + w), Lit '' '', Num y,
      Lit '' L '', Num (x + w), Lit '' '', Num (y + h),
      Lit '' L '', Num x, Lit '' '', Num (y + h),
      Lit '' Z'']"

text \<open>The circle and the ellipse share one template: four arcs of radii \<open>rx\<close>, \<open>ry\<close>.\<close>

definition arcsPath :: "real \<Rightarrow> real \<Rightarrow> real \<Rightarrow> real \<Rightarrow> tstring" where
  "arcsPath cx cy rx ry =
     [Lit ''M '', Num cx, Lit '' '', Num (cy - ry),
      Lit '' A '', Num rx, Lit '' '', Num ry, Lit '' 0 0 1 '', Num (cx + rx), Lit '' '', Num cy,
      Lit '' A '', Num rx, Lit '' '', Num ry, Lit '' 0 0 1 '', Num cx, Lit '' '', Num (cy + ry),
      Lit '' A '', Num rx, Lit '' '', Num ry, Lit '' 0 0 1 '', Num (cx - rx), Lit '' '', Num cy,
      Lit '' A '', Num rx, Lit '' '', Num ry, Lit '' 0 0 1 '', Num cx, Lit '' '', Num (cy - ry),
      Lit '' Z'']"

definition shapeToPath :: "element \<Rightarrow> tstring" where
  "shapeToPath el =
     (if tagName el = ''path'' then
        (case dAttr el of None \<Rightarrow> [] | Some d \<Rightarrow> (if d = [] then [] else [Lit d]))
      else if tagName el = ''rect'' then
        (let x = num el ''x''; y = num el ''y'';
             w = num el ''width''; h = num el ''height'';
             rx = num el ''rx''; ry = numRy el
         in if rx > 0 \<or> ry > 0
            then roundedRectPath x y w h (min rx (w / 2)) (min ry (h / 2))
            else simpleRectPath x y w h)
      else if tagName el = ''circle'' then
        (let cx = num el ''cx''; cy = num el ''cy''; r = num el ''r''
         in arcsPath cx cy r r)
      else if tagName el = ''ellipse'' then
        (let cx = num el ''cx''; cy = num el ''cy'';
             rx = num el ''rx''; ry = num el ''ry''
         in arcsPath cx cy rx ry)
      else [])"

subsection \<open>getBBox\<close>

text \<open>
  Modelled from the spec: \<^verbatim>\<open>SVGGraphicsElement.getBBox\<close> is the host's, not the
  repository's. Section 8 of the specification gives the box of a rectangle as its
  declared \<open>(x, y, width, height)\<close> and that of a circle as \<open>(cx - r, cy - r, 2r, 2r)\<close>; the
  ellipse follows the circle, and for a \<^verbatim>\<open>path\<close> the host's value is part of the element.
\<close>

definition getBBox :: "element \<Rightarrow> bbox" where
  "getBBox el =
     (if tagName el = ''rect'' then
        \<lparr>bbox_x = num el ''x'', bbox_y = num el ''y'',
         bbox_width = num el ''width'', bbox_height = num el ''height''\<rparr>
      else if tagName el = ''circle'' then
        \<lparr>bbox_x = num el ''cx'' - num el ''r'', bbox_y = num el ''cy'' - num el ''r'',
         bbox_width = 2 * num el ''r'', bbox_height = 2 * num el ''r''\<rparr>
      else if tagName el = ''ellipse'' then
        \<lparr>bbox_x = num el ''cx'' - num el ''rx'', bbox_y = num el ''cy'' - num el ''ry'',
         bbox_width = 2 * num el ''rx'', bbox_height = 2 * num el ''ry''\<rparr>
      else pathBBox el)"

subsection \<open>processSingleTemplate\<close>

datatype error = Error string

text \<open>The three messages of the source, and the brand label, as UTF-8.\<close>

definition invalidSvgMessage :: string where
  "invalidSvgMessage = ''Invalid SVG''"

definition missingMagentaMessage :: string where
  "missingMagentaMessage =
     ''Chyba '' @ [CHR 0xC5, CHR 0xA1] @ ''abl'' @ [CHR 0xC3, CHR 0xB3] @ ''ny: Nepodarilo sa n''
     @ [CHR 0xC3, CHR 0xA1] @ ''js'' @ [CHR 0xC5, CHR 0xA5] @ '' Magentov'' @ [CHR 0xC3, CHR 0xBD]
     @ '' tvar ('' @ ''#ec008c'' @ '' alebo '' @ ''#ff00ff'' @ ''). Skontrolujte ''
     @ [CHR 0xC4, CHR 0x8D] @ ''i m'' @ [CHR 0xC3, CHR 0xA1] @ '' tvar spr'' @ [CHR 0xC3, CHR 0xA1]
     @ ''vnu farbu v'' @ [CHR 0xC3, CHR 0xBD] @ ''plne alebo obrysu.''"

definition conversionMessage :: string where
  "conversionMessage =
     ''Chyba: Nepodarilo sa konvertova'' @ [CHR 0xC5, CHR 0xA5]
     @ '' tvar na cestu. Skontrolujte, '' @ [CHR 0xC4, CHR 0x8D] @ ''i SVG obsahuje platn''
     @ [CHR 0xC3, CHR 0xBD] @ '' tvar.''"

definition readFailedMessage :: "string \<Rightarrow> string" where
  "readFailedMessage fname =
     ''Nepodarilo sa na'' @ [CHR 0xC4, CHR 0x8D] @ [CHR 0xC3, CHR 0xAD] @ ''ta''
     @ [CHR 0xC5, CHR 0xA5] @ '' s'' @ [CHR 0xC3, CHR 0xBA] @ ''bor: '' @ fname"

definition customBrand :: string where
  "customBrand = ''Vlastn'' @ [CHR 0xC3, CHR 0xA1] @ '' '' @ [CHR 0xC5, CHR 0xA1]
     @ ''abl'' @ [CHR 0xC3, CHR 0xB3] @ ''na''"

text \<open>
  The sandbox after \<^verbatim>\<open>innerHTML = svgContent\<close>: whether \<^verbatim>\<open>querySelector('svg')\<close> finds an
  element, and the shapes \<^verbatim>\<open>querySelectorAll\<close> returns, in document order.
\<close>

record sandbox =
  svgElement :: bool
  shapeElements :: "element list"

text \<open>An uploaded file: its name and what the reader delivers (\<open>None\<close>: the read fails).\<close>

record templateFile =
  fileName :: string
  rendered :: "sandbox option"

record classification =
  caseElement :: "element option"
  cameraElements :: "element list"
  safeZoneElements :: "element list"

definition classifyStep :: "classification \<Rightarrow> element \<Rightarrow> classification" where
  "classifyStep st el =
     (let colorType = getShapeColorType el
      in if colorType = Magenta then st\<lparr>caseElement := Some el\<rparr>
         else if colorType = Cyan then st\<lparr>cameraElements := cameraElements st @ [el]\<rparr>
         else if colorType = Red then st\<lparr>safeZoneElements := safeZoneElements st @ [el]\<rparr>
         else st)"

definition classify :: "element list \<Rightarrow> classification" where
  "classify shapes =
     foldl classifyStep \<lparr>caseElement = None, cameraElements = [], safeZoneElements = []\<rparr> shapes"

text \<open>One round of \<^verbatim>\<open>combined += ` ${path}`\<close>, guarded by \<^verbatim>\<open>if (path)\<close>.\<close>

definition appendPath :: "tstring \<Rightarrow> element \<Rightarrow> tstring" where
  "appendPath acc el =
     (let path = shapeToPath el in if truthy path then acc @ Lit '' '' # path else acc)"

definition combinePaths :: "element list \<Rightarrow> tstring" where
  "combinePaths els = foldl appendPath [] els"

definition generatedSafeZone :: "bbox \<Rightarrow> tstring" where
  "generatedSafeZone b =
     (let inset = bbox_width b * 0.05
      in [Lit ''M '', Num (bbox_x b + inset), Lit '' '', Num (bbox_y b + inset),
          Lit '' h '', Num (bbox_width b - 2 * inset),
          Lit '' v '', Num (bbox_height b - 2 * inset),
          Lit '' h -'', Num (bbox_width b - 2 * inset),
          Lit '' Z''])"

text \<open>\<^verbatim>\<open>name.replace('.svg', '')\<close>: the first occurrence of the pattern is removed.\<close>

fun removeFirst :: "string \<Rightarrow> string \<Rightarrow> string" where
  "removeFirst pat [] = []"
| "removeFirst pat (c # cs) =
     (if take (length pat) (c # cs) = pat then drop (length pat) (c # cs)
      else c # removeFirst pat cs)"

text \<open>
  The body of \<^verbatim>\<open>reader.onload\<close>. \<open>now\<close> is \<^verbatim>\<open>Date.now()\<close> and \<open>rnd\<close> the nine characters
  taken from \<^verbatim>\<open>Math.random()\<close>; every \<^verbatim>\<open>throw\<close> is an \<open>Inl\<close>, which the \<^verbatim>\<open>catch\<close> hands
  to \<^verbatim>\<open>reject\<close>. \<open>screenRatio\<close> divides by the height of the box, which the source does
  not test.
\<close>

definition onload :: "real \<Rightarrow> string \<Rightarrow> string \<Rightarrow> sandbox \<Rightarrow> error + PhoneModel" where
  "onload now rnd fname sb =
     (if \<not> svgElement sb then Inl (Error invalidSvgMessage)
      else
        let cls = classify (shapeElements sb)
        in case caseElement cls of
             None \<Rightarrow> Inl (Error missingMagentaMessage)
           | Some el \<Rightarrow>
               let b = getBBox el;
                   casePath = shapeToPath el
               in if \<not> truthy casePath then Inl (Error conversionMessage)
                  else
                    let combinedCameraPath = combinePaths (cameraElements cls);
                        safeZone =
                          (if safeZoneElements cls \<noteq> [] then combinePaths (safeZoneElements cls)
                           else generatedSafeZone b)
                    in Inr \<lparr>model_id = [Lit ''custom-'', Num now, Lit ''-'', Lit rnd],
                            model_name = removeFirst ''.svg'' fname,
                            brand = customBrand,
                            width = bbox_width b,
                            height = bbox_height b,
                            minX = Some (bbox_x b),
                            minY = Some (bbox_y b),
                            screenRatio = bbox_width b / bbox_height b,
                            svgPath = casePath,
                            cameraPath = combinedCameraPath,
                            safeZonePath = safeZone\<rparr>)"

definition processSingleTemplate :: "real \<Rightarrow> string \<Rightarrow> templateFile \<Rightarrow> error + PhoneModel" where
  "processSingleTemplate now rnd file =
     (case rendered file of
        None \<Rightarrow> Inl (Error (readFailedMessage (fileName file)))
      | Some sb \<Rightarrow> onload now rnd (fileName file) sb)"

subsection \<open>Reading a generated path\<close>

text \<open>
  The command letters of a path, in order: what remains of its literal chunks when
  blanks, digits and signs are dropped.
\<close>

fun pieceCommands :: "piece \<Rightarrow> string" where
  "pieceCommands (Lit s) = filter (\<lambda>c. c \<in> set ''MLQAZhv'') s"
| "pieceCommands (Num r) = []"

definition commands :: "tstring \<Rightarrow> string" where
  "commands p = concat (map pieceCommands p)"

text \<open>
  The corner points a path of the commands \<^verbatim>\<open>M\<close>, \<^verbatim>\<open>h\<close>, \<^verbatim>\<open>v\<close>, \<^verbatim>\<open>Z\<close> visits, as the SVG path
  grammar reads them: \<^verbatim>\<open>M x y\<close> moves to \<open>(x, y)\<close>, \<^verbatim>\<open>h d\<close> and \<^verbatim>\<open>v d\<close> move by \<open>d\<close> along
  one axis (the chunk \<^verbatim>\<open>h -\<close> negates the number after it), \<^verbatim>\<open>Z\<close> closes. \<open>None\<close> for any
  other path.
\<close>

fun corners :: "real \<times> real \<Rightarrow> tstring \<Rightarrow> (real \<times> real) list option" where
  "corners pos (Lit c # Num a # Lit s # Num b # rest) =
     (if c = ''M '' \<and> s = '' '' then map_option (\<lambda>ps. (a, b) # ps) (corners (a, b) rest)
      else if c = '' h '' then
        map_option (\<lambda>ps. (fst pos + a, snd pos) # ps) (corners (fst pos + a, snd pos) (Lit s # Num b # rest))
      else if c = '' v '' then
        map_option (\<lambda>ps. (fst pos, snd pos + a) # ps) (corners (fst pos, snd pos + a) (Lit s # Num b # rest))
      else if c = '' h -'' then
        map_option (\<lambda>ps. (fst pos - a, snd pos) # ps) (corners (fst pos - a, snd pos) (Lit s # Num b # rest))
      else None)"
| "corners pos [Lit c, Num a, Lit z] =
     (if z \<noteq> '' Z'' then None
      else if c = '' h '' then Some [(fst pos + a, snd pos)]
      else if c = '' v '' then Some [(fst pos, snd pos + a)]
      else if c = '' h -'' then Some [(fst pos - a, snd pos)]
      else None)"
| "corners pos p = None"

text \<open>The corner points of the axis-aligned rectangle at \<open>(x, y)\<close> of extent \<open>w\<close> by \<open>h\<close>.\<close>

definition rectCorners :: "real \<Rightarrow> real \<Rightarrow> real \<Rightarrow> real \<Rightarrow> (real \<times> real) list" where
  "rectCorners x y w h = [(x, y), (x + w, y), (x + w, y + h), (x, y + h)]"

text \<open>
  The rounded rectangle in the words of the specification: one corner radius, the
  declared one clamped to half of the shorter side, on both axes.
\<close>

definition specRoundedRect :: "real \<Rightarrow> real \<Rightarrow> real \<Rightarrow> real \<Rightarrow> real \<Rightarrow> tstring" where
  "specRoundedRect x y w h declared =
     (let r = min declared (min w h / 2) in roundedRectPath x y w h r r)"

section \<open>Auto-fit (handleAutoFill)\<close>

text \<open>
  The handler reads the component's \<open>design\<close> and \<open>selectedModel\<close> and replaces the design.
  \<^verbatim>\<open>!v\<close> holds of \<^verbatim>\<open>null\<close>, of an absent field, of the empty string and of zero.
\<close>

definition falsyString :: "string option \<Rightarrow> bool" where
  "falsyString v = (case v of None \<Rightarrow> True | Some s \<Rightarrow> s = [])"

definition falsyNumber :: "real option \<Rightarrow> bool" where
  "falsyNumber v = (case v of None \<Rightarrow> True | Some n \<Rightarrow> n = 0)"

definition handleAutoFill :: "PhoneModel option \<Rightarrow> DesignState \<Rightarrow> DesignState" where
  "handleAutoFill selectedModel design =
     (if falsyString (imageSrc design) \<or> falsyNumber (imgWidth design)
         \<or> falsyNumber (imgHeight design) \<or> selectedModel = None then design
      else
        let scaleX = width (the selectedModel) / the (imgWidth design);
            scaleY = height (the selectedModel) / the (imgHeight design);
            newScale = max scaleX scaleY
        in design\<lparr>scale := newScale, design_x := 0, design_y := 0, rotation := 0\<rparr>)"

section \<open>The print compositor (generatePrintFile)\<close>

subsection \<open>The calls made on the canvas\<close>

record image =
  img_width :: real
  img_height :: real

text \<open>
  The calls of \<^verbatim>\<open>CanvasRenderingContext2D\<close> the compositor and its specification speak
  of, as data. \<open>Fill\<close> is the host's call that paints a path.
\<close>

datatype canvasOp =
    Scale real real
  | Translate real real
  | Rotate real
  | Save
  | Restore
  | Clip tstring
  | Fill tstring
  | DrawImage image real real
  | SetFont tstring
  | SetFillStyle string
  | SetTextAlign string
  | SetTextBaseline string
  | FillText string real real

text \<open>
  What the host makes of a number assigned to \<^verbatim>\<open>canvas.width\<close> or \<^verbatim>\<open>canvas.height\<close>. Each is
  an \<^verbatim>\<open>unsigned long\<close> that reflects a content attribute: the fraction of the number is
  dropped and the rest taken modulo \<open>2^32\<close>; a value above 2147483647 gives way to the
  attribute's default, 300 for the width and 150 for the height.
\<close>

definition toUnsignedLong :: "real \<Rightarrow> nat" where
  "toUnsignedLong v = nat ((if 0 \<le> v then \<lfloor>v\<rfloor> else \<lceil>v\<rceil>) mod 4294967296)"

definition canvasDimension :: "nat \<Rightarrow> real \<Rightarrow> nat" where
  "canvasDimension dflt v =
     (let n = toUnsignedLong v in if n > 2147483647 then dflt else n)"

text \<open>
  What \<^verbatim>\<open>canvas.toDataURL(type, quality)\<close> encodes: the canvas and all that was drawn.
  \<open>canvas_width\<close> and \<open>canvas_height\<close> are the pixel dimensions of the canvas, and so of the
  raster, after the assignments of the source.
\<close>

record encoded =
  canvas_width :: nat
  canvas_height :: nat
  mimeType :: string
  quality :: real
  drawn :: "canvasOp list"

datatype rejection = RejectMessage string | RejectEvent

text \<open>
  The host: whether \<^verbatim>\<open>getContext('2d')\<close> yields a context, and what loading a source
  yields (\<open>None\<close>: \<^verbatim>\<open>onerror\<close> fires).
\<close>

record canvasHost =
  ctxAvailable :: bool
  decode :: "string \<Rightarrow> image option"

definition scaleFactor :: real where
  "scaleFactor = 2.5"

text \<open>\<^verbatim>\<open>model.minX ?? 0\<close>.\<close>

definition orZero :: "real option \<Rightarrow> real" where
  "orZero v = (case v of None \<Rightarrow> 0 | Some r \<Rightarrow> r)"

text \<open>Steps 1 to 3 of the source: the calls between the first clip and its restore.\<close>

definition imageLayer :: "PhoneModel \<Rightarrow> DesignState \<Rightarrow> image \<Rightarrow> canvasOp list" where
  "imageLayer model currentDesign img =
     (let offsetX = orZero (minX model);
          offsetY = orZero (minY model);
          cx = offsetX + width model / 2;
          cy = offsetY + height model / 2
      in [Translate cx cy,
          Translate (design_x currentDesign) (design_y currentDesign),
          Rotate (rotation currentDesign * pi / 180),
          Scale (scale currentDesign) (scale currentDesign),
          DrawImage img (- img_width img / 2) (- img_height img / 2)])"

text \<open>The body of \<^verbatim>\<open>textElements.forEach\<close>.\<close>

definition textLayer :: "PhoneModel \<Rightarrow> TextElement \<Rightarrow> canvasOp list" where
  "textLayer model textEl =
     (let offsetX = orZero (minX model);
          offsetY = orZero (minY model);
          cx = offsetX + width model / 2;
          cy = offsetY + height model / 2;
          textX = cx + text_x textEl;
          textY = cy + text_y textEl;
          fsize = fontSize textEl * text_scale textEl
      in [Save,
          Translate textX textY,
          Rotate (text_rotation textEl * pi / 180),
          SetFont [Lit ''600 '', Num fsize, Lit ''px '', Lit (fontFamily textEl)],
          SetFillStyle (if color textEl = [] then ''#1e293b'' else color textEl),
          SetTextAlign ''center'',
          SetTextBaseline ''middle'',
          FillText (text_content textEl) 0 0,
          Restore])"

text \<open>The body of \<^verbatim>\<open>img.onload\<close>, up to the encoding.\<close>

definition drawCalls :: "PhoneModel \<Rightarrow> DesignState \<Rightarrow> image \<Rightarrow> canvasOp list" where
  "drawCalls model currentDesign img =
     [Scale scaleFactor scaleFactor,
      Translate (- orZero (minX model)) (- orZero (minY model)),
      Save,
      Clip (svgPath model)]
     @ imageLayer model currentDesign img
     @ [Restore]
     @ (if textElements currentDesign \<noteq> []
        then [Save, Clip (svgPath model)]
             @ concat (map (textLayer model) (textElements currentDesign))
             @ [Restore]
        else [])"

definition generatePrintFile :: "canvasHost \<Rightarrow> PhoneModel \<Rightarrow> DesignState \<Rightarrow> rejection + encoded" where
  "generatePrintFile host model currentDesign =
     (if \<not> ctxAvailable host then Inl (RejectMessage ''No canvas context'')
      else case decode host (case imageSrc currentDesign of None \<Rightarrow> [] | Some s \<Rightarrow> s) of
             None \<Rightarrow> Inl RejectEvent
           | Some img \<Rightarrow>
               Inr \<lparr>canvas_width = canvasDimension 300 (width model * scaleFactor),
                    canvas_height = canvasDimension 150 (height model * scaleFactor),
                    mimeType = ''image/jpeg'',
                    quality = 0.8,
                    drawn = drawCalls model currentDesign img\<rparr>)"

text \<open>The calls of a finished composite; none when the promise is rejected.\<close>

definition callsOf :: "rejection + encoded \<Rightarrow> canvasOp list" where
  "callsOf r = (case r of Inl e \<Rightarrow> [] | Inr out \<Rightarrow> drawn out)"

subsection \<open>What the calls paint\<close>

text \<open>
  The host's reading of the calls. A transform \<open>Affine a b c d e f\<close> sends \<open>(x, y)\<close> to
  \<open>(a x + c y + e, b x + d y + f)\<close>; each of \<^verbatim>\<open>scale\<close>, \<^verbatim>\<open>translate\<close>, \<^verbatim>\<open>rotate\<close> multiplies the
  current transform on the right; \<^verbatim>\<open>save\<close> and \<^verbatim>\<open>restore\<close> push and pop transform and clip;
  \<^verbatim>\<open>clip\<close> records the path with the transform it is read in.
\<close>

datatype affine = Affine real real real real real real

fun compose :: "affine \<Rightarrow> affine \<Rightarrow> affine" where
  "compose (Affine a1 b1 c1 d1 e1 f1) (Affine a2 b2 c2 d2 e2 f2) =
     Affine (a1 * a2 + c1 * b2) (b1 * a2 + d1 * b2)
            (a1 * c2 + c1 * d2) (b1 * c2 + d1 * d2)
            (a1 * e2 + c1 * f2 + e1) (b1 * e2 + d1 * f2 + f1)"

fun applyAffine :: "affine \<Rightarrow> real \<times> real \<Rightarrow> real \<times> real" where
  "applyAffine (Affine a b c d e f) (x, y) = (a * x + c * y + e, b * x + d * y + f)"

definition identity :: affine where
  "identity = Affine 1 0 0 1 0 0"

definition translation :: "real \<Rightarrow> real \<Rightarrow> affine" where
  "translation tx ty = Affine 1 0 0 1 tx ty"

definition scaling :: "real \<Rightarrow> real \<Rightarrow> affine" where
  "scaling sx sy = Affine sx 0 0 sy 0 0"

definition turning :: "real \<Rightarrow> affine" where
  "turning t = Affine (cos t) (sin t) (- sin t) (cos t) 0 0"

type_synonym clipping = "(tstring \<times> affine) list"

datatype painted =
    PaintedImage image affine clipping
  | PaintedText string affine clipping
  | PaintedPath tstring affine clipping

text \<open>
  \<open>paint t cl stk ops\<close> runs \<open>ops\<close> from the current transform \<open>t\<close>, the clip regions \<open>cl\<close>
  and the stack \<open>stk\<close> of saved states. \<open>PaintedImage img t cl\<close>: the pixel \<open>(u, v)\<close> of
  \<open>img\<close> lands at \<open>applyAffine t (u, v)\<close>, inside the regions \<open>cl\<close>.
\<close>

fun paint :: "affine \<Rightarrow> clipping \<Rightarrow> (affine \<times> clipping) list \<Rightarrow> canvasOp list \<Rightarrow> painted list" where
  "paint t cl stk [] = []"
| "paint t cl stk (Scale sx sy # ops) = paint (compose t (scaling sx sy)) cl stk ops"
| "paint t cl stk (Translate tx ty # ops) = paint (compose t (translation tx ty)) cl stk ops"
| "paint t cl stk (Rotate a # ops) = paint (compose t (turning a)) cl stk ops"
| "paint t cl stk (Save # ops) = paint t cl ((t, cl) # stk) ops"
| "paint t cl [] (Restore # ops) = paint t cl [] ops"
| "paint t cl ((t', cl') # stk) (Restore # ops) = paint t' cl' stk ops"
| "paint t cl stk (Clip p # ops) = paint t ((p, t) # cl) stk ops"
| "paint t cl stk (Fill p # ops) = PaintedPath p t cl # paint t cl stk ops"
| "paint t cl stk (DrawImage img dx dy # ops) =
     PaintedImage img (compose t (translation dx dy)) cl # paint t cl stk ops"
| "paint t cl stk (FillText s x y # ops) =
     PaintedText s (compose t (translation x y)) cl # paint t cl stk ops"
| "paint t cl stk (SetFont f # ops) = paint t cl stk ops"
| "paint t cl stk (SetFillStyle c # ops) = paint t cl stk ops"
| "paint t cl stk (SetTextAlign a # ops) = paint t cl stk ops"
| "paint t cl stk (SetTextBaseline b # ops) = paint t cl stk ops"

text \<open>A fresh canvas: the identity transform, no clip, nothing saved.\<close>

definition painting :: "canvasOp list \<Rightarrow> painted list" where
  "painting ops = paint identity [] [] ops"

fun isImage :: "painted \<Rightarrow> bool" where
  "isImage (PaintedImage img t cl) = True"
| "isImage p = False"

fun isPath :: "painted \<Rightarrow> bool" where
  "isPath (PaintedPath p t cl) = True"
| "isPath p = False"

fun clippingOf :: "painted \<Rightarrow> clipping" where
  "clippingOf (PaintedImage img t cl) = cl"
| "clippingOf (PaintedText s t cl) = cl"
| "clippingOf (PaintedPath p t cl) = cl"

text \<open>The transform of template-native coordinates to canvas pixels.\<close>

definition nativeFrame :: "PhoneModel \<Rightarrow> affine" where
  "nativeFrame model =
     compose (scaling scaleFactor scaleFactor)
             (translation (- orZero (minX model)) (- orZero (minY model)))"

text \<open>
  The image layer's transform in the words of the specification, in template-native
  coordinates: to the case centre, by the offset, rotate, scale, back by half the
  natural size.
\<close>

definition specImageTransform :: "PhoneModel \<Rightarrow> DesignState \<Rightarrow> image \<Rightarrow> affine" where
  "specImageTransform model d img =
     compose (translation (orZero (minX model) + width model / 2)
                          (orZero (minY model) + height model / 2))
    (compose (translation (design_x d) (design_y d))
    (compose (turning (rotation d * pi / 180))
    (compose (scaling (scale d) (scale d))
             (translation (- img_width img / 2) (- img_height img / 2)))))"

text \<open>
  The cutout in the words of the specification: painted last, over everything else.
\<close>

definition cutoutOnTop :: "tstring \<Rightarrow> painted list \<Rightarrow> bool" where
  "cutoutOnTop cutout ps =
     (case rev ps of
        PaintedPath p t cl # earlier \<Rightarrow> p = cutout
      | _ \<Rightarrow> False)"

definition clipPaths :: "canvasOp list \<Rightarrow> tstring list" where
  "clipPaths ops = concat (map (\<lambda>c. case c of Clip p \<Rightarrow> [p] | _ \<Rightarrow> []) ops)"

section \<open>Interactive zoom (PhoneEditor)\<close>

record touch =
  clientX :: real
  clientY :: real

record dragStart =
  start_x :: real
  start_y :: real
  initialDesignX :: real
  initialDesignY :: real

text \<open>The component's state that the wheel and touch handlers read and write.\<close>

record editor =
  design :: DesignState
  isDragging :: bool
  dragStartRef :: "dragStart option"
  startDistance :: "real option"
  initialScale :: real

datatype event =
    Wheel real bool
  | TouchStart "touch list"
  | TouchMove "touch list"
  | TouchEnd

text \<open>\<^verbatim>\<open>Math.hypot\<close> of the difference of the first two touches.\<close>

definition getTouchDistance :: "touch list \<Rightarrow> real" where
  "getTouchDistance touches =
     (let dx = clientX (touches ! 0) - clientX (touches ! 1);
          dy = clientY (touches ! 0) - clientY (touches ! 1)
      in sqrt (dx * dx + dy * dy))"

text \<open>
  The numbers of the source where a divisor can be zero: the finite ones, the two
  infinities and NaN. \<open>jsDivide a b\<close> is \<^verbatim>\<open>a / b\<close> of two finite numbers, the zero of \<open>b\<close>
  being the positive one (a distance, or a ratio of sizes); \<open>jsTimes a x\<close> is \<^verbatim>\<open>a * x\<close>;
  \<open>mathMin a x\<close> and \<open>mathMax a x\<close> are \<^verbatim>\<open>Math.min(a, x)\<close> and \<^verbatim>\<open>Math.max(a, x)\<close>, which
  give NaN when an argument is NaN.
\<close>

datatype jsnum = Finite real | PosInfinity | NegInfinity | NaN

definition jsDivide :: "real \<Rightarrow> real \<Rightarrow> jsnum" where
  "jsDivide a b =
     (if b \<noteq> 0 then Finite (a / b)
      else if 0 < a then PosInfinity
      else if a < 0 then NegInfinity
      else NaN)"

fun jsTimes :: "real \<Rightarrow> jsnum \<Rightarrow> jsnum" where
  "jsTimes a (Finite b) = Finite (a * b)"
| "jsTimes a PosInfinity = (if 0 < a then PosInfinity else if a < 0 then NegInfinity else NaN)"
| "jsTimes a NegInfinity = (if 0 < a then NegInfinity else if a < 0 then PosInfinity else NaN)"
| "jsTimes a NaN = NaN"

fun mathMin :: "real \<Rightarrow> jsnum \<Rightarrow> jsnum" where
  "mathMin a (Finite b) = Finite (min a b)"
| "mathMin a PosInfinity = Finite a"
| "mathMin a NegInfinity = NegInfinity"
| "mathMin a NaN = NaN"

fun mathMax :: "real \<Rightarrow> jsnum \<Rightarrow> jsnum" where
  "mathMax a (Finite b) = Finite (max a b)"
| "mathMax a PosInfinity = PosInfinity"
| "mathMax a NegInfinity = Finite a"
| "mathMax a NaN = NaN"

text \<open>
  What a handler leaves behind: the editor, or a design that is no \<open>DesignState\<close> of
  finite numbers any more, because its scale is NaN or because an offset is not finite.
\<close>

datatype outcome = Held editor | ScaleNaN | OffsetNotFinite

text \<open>\<open>Wheel deltaY mod\<close>: \<open>mod\<close> is \<^verbatim>\<open>e.ctrlKey || e.metaKey\<close>.\<close>

definition handleWheel :: "real \<Rightarrow> bool \<Rightarrow> editor \<Rightarrow> editor" where
  "handleWheel deltaY modKey ed =
     (let factor = (if modKey then 0.1 else 0.05);
          delta = - sgn deltaY;
          newScale = max 0.1 (min 10 (scale (design ed) + delta * factor))
      in ed\<lparr>design := (design ed)\<lparr>scale := newScale\<rparr>\<rparr>)"

definition handleTouchStart :: "touch list \<Rightarrow> editor \<Rightarrow> editor" where
  "handleTouchStart touches ed =
     (if falsyString (imageSrc (design ed)) then ed
      else if length touches = 2 then
        ed\<lparr>isDragging := False, dragStartRef := None,
           startDistance := Some (getTouchDistance touches),
           initialScale := scale (design ed)\<rparr>
      else if length touches = 1 then
        ed\<lparr>isDragging := True,
           dragStartRef := Some \<lparr>start_x = clientX (touches ! 0), start_y = clientY (touches ! 0),
                                 initialDesignX = design_x (design ed),
                                 initialDesignY = design_y (design ed)\<rparr>\<rparr>
      else ed)"

text \<open>
  \<open>editorScale\<close> is the memoised fit of the case into the container. The pinch divides
  by the distance stored at its start and the pan by \<open>editorScale\<close>; neither divisor is
  tested by the source.
\<close>

definition handleTouchMove :: "real \<Rightarrow> touch list \<Rightarrow> editor \<Rightarrow> outcome" where
  "handleTouchMove editorScale touches ed =
     (if length touches = 2 \<and> startDistance ed \<noteq> None then
        (let currentDist = getTouchDistance touches;
             ratio = jsDivide currentDist (the (startDistance ed));
             newScale = mathMax 0.1 (mathMin 10 (jsTimes (initialScale ed) ratio))
         in case newScale of
              Finite v \<Rightarrow> Held (ed\<lparr>design := (design ed)\<lparr>scale := v\<rparr>\<rparr>)
            | _ \<Rightarrow> ScaleNaN)
      else if isDragging ed \<and> length touches = 1 \<and> dragStartRef ed \<noteq> None then
        (let ds = the (dragStartRef ed);
             dx = clientX (touches ! 0) - start_x ds;
             dy = clientY (touches ! 0) - start_y ds;
             scaledDx = jsDivide dx editorScale;
             scaledDy = jsDivide dy editorScale
         in case (scaledDx, scaledDy) of
              (Finite sx, Finite sy) \<Rightarrow>
                Held (ed\<lparr>design := (design ed)\<lparr>design_x := initialDesignX ds + sx,
                                              design_y := initialDesignY ds + sy\<rparr>\<rparr>)
            | _ \<Rightarrow> OffsetNotFinite)
      else Held ed)"

definition handleTouchEnd :: "editor \<Rightarrow> editor" where
  "handleTouchEnd ed = ed\<lparr>isDragging := False, startDistance := None, dragStartRef := None\<rparr>"

fun handle :: "real \<Rightarrow> editor \<Rightarrow> event \<Rightarrow> outcome" where
  "handle editorScale ed (Wheel deltaY modKey) = Held (handleWheel deltaY modKey ed)"
| "handle editorScale ed (TouchStart touches) = Held (handleTouchStart touches ed)"
| "handle editorScale ed (TouchMove touches) = handleTouchMove editorScale touches ed"
| "handle editorScale ed TouchEnd = Held (handleTouchEnd ed)"

text \<open>
  A sequence of events, up to the first number that is not finite. A scale that is NaN
  stays NaN under every later handler: they add to it, multiply it, or pass it through
  \<^verbatim>\<open>Math.min\<close> and \<^verbatim>\<open>Math.max\<close>.
\<close>

fun run :: "real \<Rightarrow> editor \<Rightarrow> event list \<Rightarrow> outcome" where
  "run editorScale ed [] = Held ed"
| "run editorScale ed (e # es) =
     (case handle editorScale ed e of
        Held ed' \<Rightarrow> run editorScale ed' es
      | ScaleNaN \<Rightarrow> ScaleNaN
      | OffsetNotFinite \<Rightarrow> OffsetNotFinite)"

text \<open>Whether an event, met in a state, is a zoom: a wheel turn, or a pinch under way.\<close>

fun zooms :: "editor \<Rightarrow> event \<Rightarrow> bool" where
  "zooms ed (Wheel deltaY modKey) = True"
| "zooms ed (TouchMove touches) = (length touches = 2 \<and> startDistance ed \<noteq> None)"
| "zooms ed e = False"

fun anyZoom :: "real \<Rightarrow> editor \<Rightarrow> event list \<Rightarrow> bool" where
  "anyZoom editorScale ed [] = False"
| "anyZoom editorScale ed (e # es) =
     (zooms ed e \<or>
      (case handle editorScale ed e of
         Held ed' \<Rightarrow> anyZoom editorScale ed' es
       | ScaleNaN \<Rightarrow> False
       | OffsetNotFinite \<Rightarrow> False))"

text \<open>The two fingers of a starting pinch rest on two different points.\<close>

fun apart :: "event \<Rightarrow> bool" where
  "apart (TouchStart touches) = (length touches = 2 \<longrightarrow> getTouchDistance touches \<noteq> 0)"
| "apart e = True"

definition inRange :: "real \<Rightarrow> bool" where
  "inRange s = (0.1 \<le> s \<and> s \<le> 10)"

text \<open>The scale is a number of the range: the claim of the zoom handlers, of an outcome.\<close>

fun scaleInRange :: "outcome \<Rightarrow> bool" where
  "scaleInRange (Held ed) = inRange (scale (design ed))"
| "scaleInRange ScaleNaN = False"
| "scaleInRange OffsetNotFinite = False"

section \<open>Concrete inputs\<close>

text \<open>Whether a text occurs in another.\<close>

fun occursIn :: "string \<Rightarrow> string \<Rightarrow> bool" where
  "occursIn pat [] = (pat = [])"
| "occursIn pat (c # cs) = (take (length pat) (c # cs) = pat \<or> occursIn pat cs)"

text \<open>An element without a \<^verbatim>\<open>d\<close> attribute, from its tag, numeric attributes and colours.\<close>

definition shape :: "string \<Rightarrow> (string \<times> real) list \<Rightarrow> string \<Rightarrow> string \<Rightarrow> element" where
  "shape tag attrs f s =
     \<lparr>tagName = tag, numAttr = map_of attrs, dAttr = None, fill = f, stroke = s,
      pathBBox = \<lparr>bbox_x = 0, bbox_y = 0, bbox_width = 0, bbox_height = 0\<rparr>\<rparr>"

text \<open>The template of the specification's scenario: a magenta rectangle, a cyan circle.\<close>

definition outlineRect :: element where
  "outlineRect =
     shape ''rect'' [(''x'', 0), (''y'', 0), (''width'', 100), (''height'', 200)]
       ''rgb(255, 0, 255)'' ''none''"

definition cameraCircle :: element where
  "cameraCircle =
     shape ''circle'' [(''cx'', 80), (''cy'', 40), (''r'', 10)] ''rgb(0, 255, 255)'' ''none''"

definition scenarioTemplate :: sandbox where
  "scenarioTemplate = \<lparr>svgElement = True, shapeElements = [outlineRect, cameraCircle]\<rparr>"

text \<open>A shape outlined in the alternate magenta, a black one, a second magenta one.\<close>

definition strokedRect :: element where
  "strokedRect =
     shape ''rect'' [(''x'', 0), (''y'', 0), (''width'', 60), (''height'', 120)]
       ''none'' ''rgb(236, 0, 140)''"

definition blackRect :: element where
  "blackRect =
     shape ''rect'' [(''x'', 1), (''y'', 1), (''width'', 2), (''height'', 2)]
       ''rgb(0, 0, 0)'' ''none''"

text \<open>A wide rectangle whose declared radius exceeds half of its height only.\<close>

definition wideRect :: element where
  "wideRect =
     shape ''rect'' [(''x'', 0), (''y'', 0), (''width'', 100), (''height'', 20),
                     (''rx'', 30), (''ry'', 30)]
       ''rgb(255, 0, 255)'' ''none''"

text \<open>What a template import built, if it built anything.\<close>

definition built :: "error + PhoneModel \<Rightarrow> PhoneModel option" where
  "built r = (case r of Inl e \<Rightarrow> None | Inr m \<Rightarrow> Some m)"

text \<open>The corner points of the safe zone of what an import built.\<close>

definition safeZoneCorners :: "error + PhoneModel \<Rightarrow> (real \<times> real) list option" where
  "safeZoneCorners r = (case r of Inl e \<Rightarrow> None | Inr m \<Rightarrow> corners (0, 0) (safeZonePath m))"

text \<open>The model, the design and the host of the specification's compositing scenario.\<close>

definition scenarioModel :: PhoneModel where
  "scenarioModel =
     \<lparr>model_id = [Lit ''custom-1''], model_name = ''case'', brand = customBrand,
      width = 100, height = 200, minX = Some 0, minY = Some 0, screenRatio = 1 / 2,
      svgPath = simpleRectPath 0 0 100 200,
      cameraPath = [Lit '' ''] @ arcsPath 80 40 10 10,
      safeZonePath = []\<rparr>"

definition scenarioDesign :: DesignState where
  "scenarioDesign =
     \<lparr>scale = 1, design_x = 0, design_y = 0, rotation = 0,
      imageSrc = Some ''data:image/png;base64,AAAA'',
      imgWidth = Some 600, imgHeight = Some 800, textElements = []\<rparr>"

definition scenarioImage :: image where
  "scenarioImage = \<lparr>img_width = 600, img_height = 800\<rparr>"

definition scenarioHost :: canvasHost where
  "scenarioHost = \<lparr>ctxAvailable = True, decode = (\<lambda>src. Some scenarioImage)\<rparr>"

text \<open>The same design with one text layer.\<close>

definition labelledDesign :: DesignState where
  "labelledDesign =
     scenarioDesign\<lparr>textElements :=
       [\<lparr>text_id = ''text-1'', text_content = ''Ahoj'', fontFamily = ''Roboto'',
         text_x = 10, text_y = -20, text_scale = 1, text_rotation = 0, fontSize = 24,
         color = ''#1e293b''\<rparr>]\<rparr>"

text \<open>The editor as the component mounts it around a design.\<close>

definition mounted :: "DesignState \<Rightarrow> editor" where
  "mounted d =
     \<lparr>design = d, isDragging = False, dragStartRef = None, startDistance = None,
      initialScale = 1\<rparr>"



text \<open>A pinch whose two touches are reported at one point, and stay there.\<close>

definition coincidentPinch :: "event list" where
  "coincidentPinch =
     [TouchStart [\<lparr>clientX = 120, clientY = 300\<rparr>, \<lparr>clientX = 120, clientY = 300\<rparr>],
      TouchMove [\<lparr>clientX = 120, clientY = 300\<rparr>, \<lparr>clientX = 120, clientY = 300\<rparr>]]"

text \<open>A wheel turn, then a pinch that doubles the distance of the fingers.\<close>

definition zoomGesture :: "event list" where
  "zoomGesture =
     [Wheel (- 120) False,
      TouchStart [\<lparr>clientX = 0, clientY = 0\<rparr>, \<lparr>clientX = 3, clientY = 4\<rparr>],
      TouchMove [\<lparr>clientX = 0, clientY = 0\<rparr>, \<lparr>clientX = 6, clientY = 8\<rparr>],
      TouchEnd]"

section \<open>The shape classifier\<close>

lemma scanCandidates_two:
  "scanCandidates [a, b] = (if colorClass a \<noteq> Unknown then colorClass a else colorClass b)"
  by (simp add: colorClass_def split: option.split)

lemma getShapeColorType_char:
  "getShapeColorType el =
     (if colorClass (fill el) \<noteq> Unknown then colorClass (fill el) else colorClass (stroke el))"
  by (simp only: getShapeColorType_def scanCandidates_two)

lemma classify_snoc: "classify (xs @ [e]) = classifyStep (classify xs) e"
  by (simp add: classify_def)

text \<open>The loop keeps the last magenta shape and every cyan and red one, in order.\<close>

lemma classify_char:
  "classify shapes =
     \<lparr>caseElement =
        (if filter (\<lambda>e. getShapeColorType e = Magenta) shapes = [] then None
         else Some (last (filter (\<lambda>e. getShapeColorType e = Magenta) shapes))),
      cameraElements = filter (\<lambda>e. getShapeColorType e = Cyan) shapes,
      safeZoneElements = filter (\<lambda>e. getShapeColorType e = Red) shapes\<rparr>"
proof (induction shapes rule: rev_induct)
  case Nil
  show ?case by (simp add: classify_def)
next
  case (snoc e es)
  show ?case
    by (cases "getShapeColorType e") (simp_all add: classify_snoc snoc.IH classifyStep_def)
qed

lemma filter_other_class:
  "c \<noteq> Magenta \<Longrightarrow>
   filter (\<lambda>e. getShapeColorType e \<noteq> Magenta \<and> getShapeColorType e = c) xs
     = filter (\<lambda>e. getShapeColorType e = c) xs"
  by (induction xs) auto

lemma filter_magenta_removed:
  "filter (\<lambda>e. getShapeColorType e \<noteq> Magenta \<and> getShapeColorType e = Magenta) xs = []"
  by (induction xs) auto

lemma filter_none:
  "\<forall>e\<in>set xs. getShapeColorType e \<noteq> c \<Longrightarrow> filter (\<lambda>e. getShapeColorType e = c) xs = []"
  by (induction xs) auto

lemma classify_drop_earlier:
  assumes "getShapeColorType s = Magenta" and "\<forall>e\<in>set post. getShapeColorType e \<noteq> Magenta"
  shows "classify (pre @ s # post) = (classify (filter (\<lambda>e. getShapeColorType e \<noteq> Magenta) pre @ s # post))"
    and "caseElement (classify (pre @ s # post)) = Some s"
  using assms
  by (simp_all add: classify_char filter_other_class filter_magenta_removed filter_none)

lemma classify_skip_unknown:
  "getShapeColorType u = Unknown \<Longrightarrow> classify (xs @ u # ys) = classify (xs @ ys)"
  by (simp add: classify_char)

lemma onload_via_classify:
  "classify xs = classify ys \<Longrightarrow>
   onload now rnd fname \<lparr>svgElement = sv, shapeElements = xs\<rparr>
     = onload now rnd fname \<lparr>svgElement = sv, shapeElements = ys\<rparr>"
  by (simp add: onload_def)

text \<open>The classes of the concrete shapes.\<close>

lemma strokedRect_class: "getShapeColorType strokedRect = Magenta"
  by (simp add: strokedRect_def shape_def getShapeColorType_def parseRGB_def isDigit_def
      parseInt_def classOfRGB_def)

lemma blackRect_class: "getShapeColorType blackRect = Unknown"
  by (simp add: blackRect_def shape_def getShapeColorType_def parseRGB_def isDigit_def
      parseInt_def classOfRGB_def)

lemma outlineRect_class: "getShapeColorType outlineRect = Magenta"
  by (simp add: outlineRect_def shape_def getShapeColorType_def parseRGB_def isDigit_def
      parseInt_def classOfRGB_def)

lemma cameraCircle_class: "getShapeColorType cameraCircle = Cyan"
  by (simp add: cameraCircle_def shape_def getShapeColorType_def parseRGB_def isDigit_def
      parseInt_def classOfRGB_def)

lemma strokedRect_stroke: "colorClass (stroke strokedRect) = Magenta"
  by (simp add: strokedRect_def shape_def colorClass_def parseRGB_def isDigit_def
      parseInt_def classOfRGB_def)

text \<open>
  C7. A shape's class is the class of its fill colour when that colour matches a class,
  and the class of its stroke colour otherwise. A shape whose fill is absent or
  \<^verbatim>\<open>none\<close> and whose stroke is of class A is of class A, and is the outline when no
  class-A shape follows it. A shape of no class changes neither the classification nor
  the outcome of the import: it is passed over, not reported.
\<close>

theorem fill_then_stroke_classification:
  "getShapeColorType el =
     (if colorClass (fill el) \<noteq> Unknown then colorClass (fill el) else colorClass (stroke el))
   \<and> ((fill el = [] \<or> fill el = ''none'') \<and> colorClass (stroke el) = Magenta
        \<and> (\<forall>e\<in>set post. getShapeColorType e \<noteq> Magenta)
      \<longrightarrow> getShapeColorType el = Magenta \<and> caseElement (classify (pre @ el # post)) = Some el)
   \<and> (getShapeColorType u = Unknown
      \<longrightarrow> classify (xs @ u # ys) = classify (xs @ ys)
          \<and> onload now rnd fname \<lparr>svgElement = sv, shapeElements = xs @ u # ys\<rparr>
            = onload now rnd fname \<lparr>svgElement = sv, shapeElements = xs @ ys\<rparr>)"
proof (intro conjI impI)
  show "getShapeColorType el =
     (if colorClass (fill el) \<noteq> Unknown then colorClass (fill el) else colorClass (stroke el))"
    by (rule getShapeColorType_char)
next
  assume a: "(fill el = [] \<or> fill el = ''none'') \<and> colorClass (stroke el) = Magenta
        \<and> (\<forall>e\<in>set post. getShapeColorType e \<noteq> Magenta)"
  then have "colorClass (fill el) = Unknown"
    by (auto simp: colorClass_def)
  with a show m: "getShapeColorType el = Magenta"
    by (simp add: getShapeColorType_char)
  from m a show "caseElement (classify (pre @ el # post)) = Some el"
    by (simp add: classify_drop_earlier(2))
next
  assume u: "getShapeColorType u = Unknown"
  then show c: "classify (xs @ u # ys) = classify (xs @ ys)"
    by (rule classify_skip_unknown)
  then show "onload now rnd fname \<lparr>svgElement = sv, shapeElements = xs @ u # ys\<rparr>
            = onload now rnd fname \<lparr>svgElement = sv, shapeElements = xs @ ys\<rparr>"
    by (rule onload_via_classify)
qed

theorem fill_then_stroke_classification_witness:
  "getShapeColorType strokedRect = Magenta
   \<and> caseElement (classify [blackRect, strokedRect, blackRect]) = Some strokedRect
   \<and> classify [strokedRect, blackRect] = classify [strokedRect]"
proof -
  have f: "fill strokedRect = ''none''"
    by (simp add: strokedRect_def shape_def)
  have p: "\<forall>e\<in>set [blackRect]. getShapeColorType e \<noteq> Magenta"
    by (simp add: blackRect_class)
  have n: "colorClass ''none'' = Unknown"
    by (simp add: colorClass_def)
  show ?thesis
    using fill_then_stroke_classification
      [of strokedRect "[blackRect]" "[blackRect]" blackRect "[strokedRect]" "[]"]
      f p n strokedRect_stroke blackRect_class
    by simp
qed

text \<open>
  C3. In a list of shapes with more than one class-A match, the outline the classifier
  chooses is the last class-A match in input order. The earlier matches are dropped
  without an error: the import gives what it gives on the list without them.
\<close>

theorem last_outline_match_wins:
  assumes "1 < length (filter (\<lambda>e. getShapeColorType e = Magenta) shapes)"
  shows "caseElement (classify shapes)
           = Some (last (filter (\<lambda>e. getShapeColorType e = Magenta) shapes))
       \<and> (\<forall>pre s post.
            shapes = pre @ s # post \<and> getShapeColorType s = Magenta
            \<and> (\<forall>e\<in>set post. getShapeColorType e \<noteq> Magenta)
          \<longrightarrow> caseElement (classify shapes) = Some s
              \<and> onload now rnd fname \<lparr>svgElement = sv, shapeElements = shapes\<rparr>
                = onload now rnd fname
                    \<lparr>svgElement = sv,
                     shapeElements = filter (\<lambda>e. getShapeColorType e \<noteq> Magenta) pre @ s # post\<rparr>)"
proof (intro conjI allI impI)
  from assms have "filter (\<lambda>e. getShapeColorType e = Magenta) shapes \<noteq> []"
    by auto
  then show "caseElement (classify shapes)
           = Some (last (filter (\<lambda>e. getShapeColorType e = Magenta) shapes))"
    by (simp add: classify_char)
next
  fix pre s post
  assume a: "shapes = pre @ s # post \<and> getShapeColorType s = Magenta
            \<and> (\<forall>e\<in>set post. getShapeColorType e \<noteq> Magenta)"
  then show "caseElement (classify shapes) = Some s"
    by (simp add: classify_drop_earlier(2))
  from a have "classify shapes
      = classify (filter (\<lambda>e. getShapeColorType e \<noteq> Magenta) pre @ s # post)"
    using classify_drop_earlier(1) by blast
  then show "onload now rnd fname \<lparr>svgElement = sv, shapeElements = shapes\<rparr>
                = onload now rnd fname
                    \<lparr>svgElement = sv,
                     shapeElements = filter (\<lambda>e. getShapeColorType e \<noteq> Magenta) pre @ s # post\<rparr>"
    by (rule onload_via_classify)
qed

theorem last_outline_match_wins_witness:
  "1 < length (filter (\<lambda>e. getShapeColorType e = Magenta)
                 [outlineRect, cameraCircle, strokedRect, blackRect])
   \<and> caseElement (classify [outlineRect, cameraCircle, strokedRect, blackRect]) = Some strokedRect"
proof -
  have h: "1 < length (filter (\<lambda>e. getShapeColorType e = Magenta)
                 [outlineRect, cameraCircle, strokedRect, blackRect])"
    by (simp add: outlineRect_class cameraCircle_class strokedRect_class blackRect_class)
  show ?thesis
    using h last_outline_match_wins [OF h]
    by (simp add: outlineRect_class cameraCircle_class strokedRect_class blackRect_class)
qed

text \<open>
  C4. When no shape of the rendered document is of class A, the import ends in an error
  and in no model. When the document has an \<^verbatim>\<open>svg\<close> element, the error is the one
  that names the magenta shape and both of its hex values.
\<close>

theorem missing_outline_rejected:
  assumes "rendered file = Some sb"
    and "\<forall>e\<in>set (shapeElements sb). getShapeColorType e \<noteq> Magenta"
  shows "(\<exists>e. processSingleTemplate now rnd file = Inl e)
       \<and> (\<forall>m. processSingleTemplate now rnd file \<noteq> Inr m)
       \<and> (svgElement sb \<longrightarrow>
            processSingleTemplate now rnd file = Inl (Error missingMagentaMessage))
       \<and> occursIn ''Magentov'' missingMagentaMessage
       \<and> occursIn ''#ec008c'' missingMagentaMessage
       \<and> occursIn ''#ff00ff'' missingMagentaMessage"
proof -
  from assms(2) have none: "caseElement (classify (shapeElements sb)) = None"
    by (simp add: classify_char filter_none)
  have r: "processSingleTemplate now rnd file =
      (if svgElement sb then Inl (Error missingMagentaMessage) else Inl (Error invalidSvgMessage))"
    using assms(1) none by (simp add: processSingleTemplate_def onload_def)
  have o: "occursIn ''Magentov'' missingMagentaMessage"
      "occursIn ''#ec008c'' missingMagentaMessage"
      "occursIn ''#ff00ff'' missingMagentaMessage"
    by (simp_all add: missingMagentaMessage_def)
  from r o show ?thesis by auto
qed

theorem missing_outline_rejected_witness:
  "rendered \<lparr>fileName = ''case.svg'',
             rendered = Some \<lparr>svgElement = True, shapeElements = [cameraCircle, blackRect]\<rparr>\<rparr>
     = Some \<lparr>svgElement = True, shapeElements = [cameraCircle, blackRect]\<rparr>
   \<and> list_all (\<lambda>e. getShapeColorType e \<noteq> Magenta) [cameraCircle, blackRect]
   \<and> processSingleTemplate 0 ''abc'' \<lparr>fileName = ''case.svg'',
             rendered = Some \<lparr>svgElement = True, shapeElements = [cameraCircle, blackRect]\<rparr>\<rparr>
     = Inl (Error missingMagentaMessage)"
proof -
  have a: "rendered \<lparr>fileName = ''case.svg'',
             rendered = Some \<lparr>svgElement = True, shapeElements = [cameraCircle, blackRect]\<rparr>\<rparr>
     = Some \<lparr>svgElement = True, shapeElements = [cameraCircle, blackRect]\<rparr>"
    by simp
  have b: "\<forall>e\<in>set (shapeElements \<lparr>svgElement = True, shapeElements = [cameraCircle, blackRect]\<rparr>).
         getShapeColorType e \<noteq> Magenta"
    by (simp add: cameraCircle_class blackRect_class)
  show ?thesis
    using a b missing_outline_rejected [OF a b, of 0 "''abc''"]
    by simp
qed

section \<open>The template builder and the geometry of shapes\<close>

lemma roundedRectPath_truthy: "truthy (roundedRectPath x y w h a b)"
  by (simp add: truthy_def roundedRectPath_def)

lemma simpleRectPath_truthy: "truthy (simpleRectPath x y w h)"
  by (simp add: truthy_def simpleRectPath_def)

lemma arcsPath_truthy: "truthy (arcsPath cx cy rx ry)"
  by (simp add: truthy_def arcsPath_def)

lemma rect_path_truthy: "tagName el = ''rect'' \<Longrightarrow> truthy (shapeToPath el)"
  by (simp add: shapeToPath_def Let_def roundedRectPath_truthy simpleRectPath_truthy)

lemma generatedSafeZone_corners:
  "corners (0, 0) (generatedSafeZone b) =
     Some (rectCorners (bbox_x b + bbox_width b * 0.05) (bbox_y b + bbox_width b * 0.05)
             (bbox_width b - 2 * (bbox_width b * 0.05))
             (bbox_height b - 2 * (bbox_width b * 0.05)))"
  by (simp add: generatedSafeZone_def rectCorners_def Let_def)

lemma scenario_classify:
  assumes "getShapeColorType r = Magenta" and "getShapeColorType c = Cyan"
  shows "classify [r, c] = \<lparr>caseElement = Some r, cameraElements = [c], safeZoneElements = []\<rparr>"
  using assms by (simp add: classify_char)

text \<open>
  C2 (as amended). The template of one class-A rectangle \<open>x = 0, y = 0, w = 100, h = 200\<close>,
  one class-B circle \<open>cx = 80, cy = 40, r = 10\<close> and no class-C shape is built into a model
  of \<open>width = 100\<close>, \<open>height = 200\<close>, \<open>minX = 0\<close>, \<open>minY = 0\<close>, with a non-empty cutout
  path, and with a generated safe-zone path whose corners are those of the rectangle
  \<open>x = 5, y = 5, w = 90, h = 190\<close>: the inset of 5 units, 5 percent of the width, is taken
  on both axes.
\<close>

theorem scenario_template_model:
  assumes "tagName r = ''rect''" and "numAttr r ''x'' = Some 0" and "numAttr r ''y'' = Some 0"
    and "numAttr r ''width'' = Some 100" and "numAttr r ''height'' = Some 200"
    and "getShapeColorType r = Magenta"
    and "tagName c = ''circle''" and "numAttr c ''cx'' = Some 80" and "numAttr c ''cy'' = Some 40"
    and "numAttr c ''r'' = Some 10" and "getShapeColorType c = Cyan"
  shows "\<exists>m. onload now rnd fname \<lparr>svgElement = True, shapeElements = [r, c]\<rparr> = Inr m
           \<and> width m = 100 \<and> height m = 200 \<and> minX m = Some 0 \<and> minY m = Some 0
           \<and> cameraPath m = Lit '' '' # arcsPath 80 40 10 10 \<and> truthy (cameraPath m)
           \<and> safeZonePath m = generatedSafeZone (getBBox r)
           \<and> corners (0, 0) (safeZonePath m) = Some (rectCorners 5 5 90 190)"
proof -
  have b: "getBBox r = \<lparr>bbox_x = 0, bbox_y = 0, bbox_width = 100, bbox_height = 200\<rparr>"
    using assms(1-5) by (simp add: getBBox_def num_def)
  have p: "truthy (shapeToPath r)"
    using assms(1) by (rule rect_path_truthy)
  have cp: "shapeToPath c = arcsPath 80 40 10 10"
    using assms(7-10) by (simp add: shapeToPath_def num_def)
  have cam: "combinePaths [c] = Lit '' '' # arcsPath 80 40 10 10"
    by (simp add: combinePaths_def appendPath_def cp arcsPath_truthy)
  have t: "truthy (Lit '' '' # arcsPath 80 40 10 10)"
    by (simp add: truthy_def)
  have z: "corners (0, 0) (generatedSafeZone (getBBox r)) = Some (rectCorners 5 5 90 190)"
    by (simp add: generatedSafeZone_corners b)
  show ?thesis
    using p cam t z
    by (simp add: onload_def scenario_classify [OF assms(6) assms(11)] b)
qed

theorem scenario_template_model_witness:
  "safeZoneCorners (onload 0 ''abc'' ''case.svg'' scenarioTemplate)
     = Some [(5, 5), (95, 5), (95, 195), (5, 195)]
   \<and> map_option width (built (onload 0 ''abc'' ''case.svg'' scenarioTemplate)) = Some 100
   \<and> map_option height (built (onload 0 ''abc'' ''case.svg'' scenarioTemplate)) = Some 200"
proof -
  have a: "tagName outlineRect = ''rect''" "numAttr outlineRect ''x'' = Some 0"
    "numAttr outlineRect ''y'' = Some 0" "numAttr outlineRect ''width'' = Some 100"
    "numAttr outlineRect ''height'' = Some 200"
    by (simp_all add: outlineRect_def shape_def)
  have c: "tagName cameraCircle = ''circle''" "numAttr cameraCircle ''cx'' = Some 80"
    "numAttr cameraCircle ''cy'' = Some 40" "numAttr cameraCircle ''r'' = Some 10"
    by (simp_all add: cameraCircle_def shape_def)
  from scenario_template_model
    [OF a outlineRect_class c cameraCircle_class, of 0 "''abc''" "''case.svg''"]
  show ?thesis
    by (auto simp: safeZoneCorners_def built_def scenarioTemplate_def rectCorners_def)
qed

text \<open>
  The safe zone of that template is not the rectangle \<open>x = 5, y = 10, w = 90, h = 180\<close>.
\<close>

theorem scenario_safe_zone_counterexample:
  "safeZoneCorners (onload 0 ''abc'' ''case.svg'' scenarioTemplate)
     \<noteq> Some (rectCorners 5 10 90 180)"
proof -
  have b: "getBBox outlineRect = \<lparr>bbox_x = 0, bbox_y = 0, bbox_width = 100, bbox_height = 200\<rparr>"
    by (simp add: getBBox_def num_def outlineRect_def shape_def)
  have p: "truthy (shapeToPath outlineRect)"
    by (rule rect_path_truthy) (simp add: outlineRect_def shape_def)
  have z: "corners (0, 0) (generatedSafeZone (getBBox outlineRect)) = Some (rectCorners 5 5 90 190)"
    by (simp add: generatedSafeZone_corners b)
  have "safeZoneCorners (onload 0 ''abc'' ''case.svg'' scenarioTemplate)
     = Some (rectCorners 5 5 90 190)"
    using p z
    by (simp add: safeZoneCorners_def onload_def scenarioTemplate_def Let_def
        scenario_classify [OF outlineRect_class cameraCircle_class])
  then show ?thesis
    by (simp add: rectCorners_def)
qed

lemma commands_rounded: "commands (roundedRectPath x y w h a b) = ''MLQLQLQLQZ''"
  by (simp add: commands_def roundedRectPath_def)

text \<open>
  C5 (as amended). A rectangle with a positive declared \<^verbatim>\<open>rx\<close> is converted to a closed
  contour of eight segments, lines and corner curves in turn, in which the horizontal
  corner radius is \<open>min rx (width / 2)\<close> and the vertical one \<open>min ry (height / 2)\<close>, each
  axis clamped by its own side; \<^verbatim>\<open>ry\<close> is \<^verbatim>\<open>rx\<close> when it is not declared. The contour is the
  one of a single radius clamped to half of the shorter side when both radii are equal
  and either fit into that half or the rectangle is a square.
\<close>

theorem rounded_rect_contour:
  assumes "tagName el = ''rect''" and "numAttr el ''rx'' = Some r" and "0 < r"
  shows "shapeToPath el =
           roundedRectPath (num el ''x'') (num el ''y'') (num el ''width'') (num el ''height'')
             (min r (num el ''width'' / 2)) (min (numRy el) (num el ''height'' / 2))
       \<and> commands (shapeToPath el) = ''MLQLQLQLQZ''
       \<and> (numAttr el ''ry'' = None \<longrightarrow> numRy el = r)
       \<and> (numRy el = r \<and> (r \<le> min (num el ''width'') (num el ''height'') / 2
                            \<or> num el ''width'' = num el ''height'')
          \<longrightarrow> shapeToPath el =
                specRoundedRect (num el ''x'') (num el ''y'') (num el ''width'') (num el ''height'') r)"
proof -
  have rx: "num el ''rx'' = r"
    using assms(2) by (simp add: num_def)
  have p: "shapeToPath el =
           roundedRectPath (num el ''x'') (num el ''y'') (num el ''width'') (num el ''height'')
             (min r (num el ''width'' / 2)) (min (numRy el) (num el ''height'' / 2))"
    using assms(1,3) by (simp add: shapeToPath_def Let_def rx)
  have c: "commands (shapeToPath el) = ''MLQLQLQLQZ''"
    by (simp only: p commands_rounded)
  have y: "numAttr el ''ry'' = None \<longrightarrow> numRy el = r"
    by (simp add: numRy_def rx)
  have s: "numRy el = r \<and> (r \<le> min (num el ''width'') (num el ''height'') / 2
                            \<or> num el ''width'' = num el ''height'')
          \<longrightarrow> shapeToPath el =
                specRoundedRect (num el ''x'') (num el ''y'') (num el ''width'') (num el ''height'') r"
  proof
    assume h: "numRy el = r \<and> (r \<le> min (num el ''width'') (num el ''height'') / 2
                            \<or> num el ''width'' = num el ''height'')"
    then have "min r (num el ''width'' / 2) = min r (min (num el ''width'') (num el ''height'') / 2)"
      and "min r (num el ''height'' / 2) = min r (min (num el ''width'') (num el ''height'') / 2)"
      by (auto simp: min_def split: if_splits)
    with h show "shapeToPath el =
                specRoundedRect (num el ''x'') (num el ''y'') (num el ''width'') (num el ''height'') r"
      by (simp add: p specRoundedRect_def Let_def)
  qed
  from p c y s show ?thesis by blast
qed

theorem rounded_rect_contour_witness:
  "shapeToPath wideRect = roundedRectPath 0 0 100 20 30 10
   \<and> commands (shapeToPath wideRect) = ''MLQLQLQLQZ''"
proof -
  have a: "tagName wideRect = ''rect''" "numAttr wideRect ''rx'' = Some 30" "(0::real) < 30"
    by (simp_all add: wideRect_def shape_def)
  have n: "num wideRect ''x'' = 0" "num wideRect ''y'' = 0" "num wideRect ''width'' = 100"
    "num wideRect ''height'' = 20" "numRy wideRect = 30"
    by (simp_all add: wideRect_def shape_def num_def numRy_def)
  have "shapeToPath wideRect = roundedRectPath 0 0 100 20 30 10"
    using rounded_rect_contour [OF a, THEN conjunct1] by (simp add: n)
  moreover have "commands (shapeToPath wideRect) = ''MLQLQLQLQZ''"
    using rounded_rect_contour [OF a, THEN conjunct2, THEN conjunct1] by simp
  ultimately show ?thesis by simp
qed

text \<open>
  A rectangle of 100 by 20 with both radii 30 is not converted with the single radius
  \<open>min 30 (20 / 2) = 10\<close>: its horizontal radius stays 30.
\<close>

theorem rounded_rect_radius_counterexample:
  "shapeToPath wideRect \<noteq> specRoundedRect 0 0 100 20 30"
  by (simp add: wideRect_def shape_def shapeToPath_def num_def numRy_def specRoundedRect_def
      roundedRectPath_def Let_def)

section \<open>The compositor\<close>

lemma compose_assoc: "compose (compose a b) c = compose a (compose b c)"
  by (cases a; cases b; cases c) (simp add: algebra_simps)

lemma compose_identity: "compose identity a = a"
  by (cases a) (simp add: identity_def)

lemma compose_translation_zero: "compose a (translation 0 0) = a"
  by (cases a) (simp add: translation_def)

lemma paint_text_layer:
  "paint t cl stk (textLayer m te @ rest) =
     PaintedText (text_content te)
       (compose t (compose (translation (orZero (minX m) + width m / 2 + text_x te)
                                        (orZero (minY m) + height m / 2 + text_y te))
                           (turning (text_rotation te * pi / 180)))) cl
     # paint t cl stk rest"
  by (simp add: textLayer_def Let_def compose_assoc compose_translation_zero)

lemma paint_text_layers:
  "paint t cl stk (concat (map (textLayer m) ts) @ rest) =
     map (\<lambda>te. PaintedText (text_content te)
            (compose t (compose (translation (orZero (minX m) + width m / 2 + text_x te)
                                             (orZero (minY m) + height m / 2 + text_y te))
                                (turning (text_rotation te * pi / 180)))) cl) ts
     @ paint t cl stk rest"
  by (induction ts) (simp_all add: paint_text_layer)

lemma painting_drawCalls:
  "painting (drawCalls m d img) =
     PaintedImage img (compose (nativeFrame m) (specImageTransform m d img))
       [(svgPath m, nativeFrame m)]
     # map (\<lambda>te. PaintedText (text_content te)
              (compose (nativeFrame m)
                 (compose (translation (orZero (minX m) + width m / 2 + text_x te)
                                       (orZero (minY m) + height m / 2 + text_y te))
                          (turning (text_rotation te * pi / 180))))
              [(svgPath m, nativeFrame m)]) (textElements d)"
proof -
  have img: "paint identity [] [] (drawCalls m d img) =
      PaintedImage img (compose (nativeFrame m) (specImageTransform m d img))
        [(svgPath m, nativeFrame m)]
      # paint (nativeFrame m) [] []
          (if textElements d \<noteq> []
           then [Save, Clip (svgPath m)] @ concat (map (textLayer m) (textElements d)) @ [Restore]
           else [])"
    by (simp add: drawCalls_def imageLayer_def Let_def nativeFrame_def specImageTransform_def
        compose_assoc compose_identity)
  have tl: "paint (nativeFrame m) [] []
          (if textElements d \<noteq> []
           then [Save, Clip (svgPath m)] @ concat (map (textLayer m) (textElements d)) @ [Restore]
           else [])
       = map (\<lambda>te. PaintedText (text_content te)
              (compose (nativeFrame m)
                 (compose (translation (orZero (minX m) + width m / 2 + text_x te)
                                       (orZero (minY m) + height m / 2 + text_y te))
                          (turning (text_rotation te * pi / 180))))
              [(svgPath m, nativeFrame m)]) (textElements d)"
    by (simp add: paint_text_layers)
  show ?thesis
    by (simp only: painting_def img tl)
qed

lemma painting_Nil: "painting [] = []"
  by (simp add: painting_def)

lemma generatePrintFile_ok:
  assumes "ctxAvailable host"
    and "decode host (case imageSrc d of None \<Rightarrow> [] | Some s \<Rightarrow> s) = Some img"
  shows "generatePrintFile host m d =
     Inr \<lparr>canvas_width = canvasDimension 300 (width m * scaleFactor),
          canvas_height = canvasDimension 150 (height m * scaleFactor),
          mimeType = ''image/jpeg'', quality = 0.8, drawn = drawCalls m d img\<rparr>"
  using assms by (simp add: generatePrintFile_def)

lemma specImageTransform_centre:
  "applyAffine (specImageTransform m d img) (img_width img / 2, img_height img / 2)
     = (orZero (minX m) + width m / 2 + design_x d, orZero (minY m) + height m / 2 + design_y d)"
  by (simp add: specImageTransform_def translation_def turning_def scaling_def)

text \<open>
  C1. When the image decodes, the compositor issues, after the clip to the outline, the
  calls translate to \<open>C = (minX + width / 2, minY + height / 2)\<close>, translate by the
  offset \<open>(x, y)\<close>, rotate by the rotation in degrees, scale by \<open>scale\<close> on both axes, and
  draw the image at minus half of its natural size. The image is painted once, through
  the product of these transforms in this order, read in the frame of the outline path.
  Its natural centre lands at \<open>C + (x, y)\<close> in template coordinates: at \<open>(50, 100)\<close> for
  scale 1, offset 0, rotation 0 and a model of width 100, height 200, \<open>minX = minY = 0\<close>.
\<close>

theorem image_layer_transform:
  assumes "ctxAvailable host"
    and "decode host (case imageSrc d of None \<Rightarrow> [] | Some s \<Rightarrow> s) = Some img"
  shows "(\<exists>rest. callsOf (generatePrintFile host m d) =
            [Scale scaleFactor scaleFactor,
             Translate (- orZero (minX m)) (- orZero (minY m)),
             Save,
             Clip (svgPath m),
             Translate (orZero (minX m) + width m / 2) (orZero (minY m) + height m / 2),
             Translate (design_x d) (design_y d),
             Rotate (rotation d * pi / 180),
             Scale (scale d) (scale d),
             DrawImage img (- img_width img / 2) (- img_height img / 2),
             Restore] @ rest)
       \<and> filter isImage (painting (callsOf (generatePrintFile host m d)))
           = [PaintedImage img (compose (nativeFrame m) (specImageTransform m d img))
                [(svgPath m, nativeFrame m)]]
       \<and> applyAffine (specImageTransform m d img) (img_width img / 2, img_height img / 2)
           = (orZero (minX m) + width m / 2 + design_x d,
              orZero (minY m) + height m / 2 + design_y d)"
proof -
  have c: "callsOf (generatePrintFile host m d) = drawCalls m d img"
    by (simp add: callsOf_def generatePrintFile_ok [OF assms])
  have o: "\<exists>rest. drawCalls m d img =
            [Scale scaleFactor scaleFactor,
             Translate (- orZero (minX m)) (- orZero (minY m)),
             Save,
             Clip (svgPath m),
             Translate (orZero (minX m) + width m / 2) (orZero (minY m) + height m / 2),
             Translate (design_x d) (design_y d),
             Rotate (rotation d * pi / 180),
             Scale (scale d) (scale d),
             DrawImage img (- img_width img / 2) (- img_height img / 2),
             Restore] @ rest"
    by (simp add: drawCalls_def imageLayer_def Let_def)
  have f: "filter isImage (painting (drawCalls m d img))
           = [PaintedImage img (compose (nativeFrame m) (specImageTransform m d img))
                [(svgPath m, nativeFrame m)]]"
    by (simp add: painting_drawCalls filter_empty_conv)
  show ?thesis
    using o f by (simp only: c specImageTransform_centre simp_thms)
qed

lemma scenario_decodes:
  "ctxAvailable scenarioHost"
  "decode scenarioHost (case imageSrc scenarioDesign of None \<Rightarrow> [] | Some s \<Rightarrow> s)
     = Some scenarioImage"
  "decode scenarioHost (case imageSrc labelledDesign of None \<Rightarrow> [] | Some s \<Rightarrow> s)
     = Some scenarioImage"
  by (simp_all add: scenarioHost_def)

theorem image_layer_transform_witness:
  "applyAffine (specImageTransform scenarioModel scenarioDesign scenarioImage) (300, 400)
     = (50, 100)
   \<and> filter isImage (painting (callsOf (generatePrintFile scenarioHost scenarioModel scenarioDesign)))
     = [PaintedImage scenarioImage
          (compose (nativeFrame scenarioModel)
             (specImageTransform scenarioModel scenarioDesign scenarioImage))
          [(svgPath scenarioModel, nativeFrame scenarioModel)]]"
proof -
  note t = image_layer_transform [OF scenario_decodes(1) scenario_decodes(2), of scenarioModel]
  have "applyAffine (specImageTransform scenarioModel scenarioDesign scenarioImage) (300, 400)
     = (50, 100)"
    using t [THEN conjunct2, THEN conjunct2]
    by (simp add: scenarioModel_def scenarioDesign_def scenarioImage_def orZero_def)
  with t show ?thesis by simp
qed






lemma clipPaths_Nil: "clipPaths [] = []"
  by (simp add: clipPaths_def)

lemma clipPaths_Cons:
  "clipPaths (c # cs) = (case c of Clip p \<Rightarrow> [p] | _ \<Rightarrow> []) @ clipPaths cs"
  by (simp add: clipPaths_def)

lemma clipPaths_append: "clipPaths (xs @ ys) = clipPaths xs @ clipPaths ys"
  by (simp add: clipPaths_def)

lemma clipPaths_text_layers: "clipPaths (concat (map (textLayer m) ts)) = []"
  by (induction ts) (simp_all add: clipPaths_Nil clipPaths_Cons clipPaths_append textLayer_def Let_def)

lemma clipPaths_drawCalls: "set (clipPaths (drawCalls m d img)) = {svgPath m}"
  by (simp add: drawCalls_def imageLayer_def Let_def clipPaths_Nil clipPaths_Cons
      clipPaths_append clipPaths_text_layers)

lemma textLayer_cameraPath: "textLayer (m\<lparr>cameraPath := p\<rparr>) = textLayer m"
  by (rule ext) (simp add: textLayer_def)

lemma drawCalls_cameraPath: "drawCalls (m\<lparr>cameraPath := p\<rparr>) d img = drawCalls m d img"
  by (simp add: drawCalls_def imageLayer_def textLayer_cameraPath)

lemma cutoutOnTop_needs_path:
  assumes "cutoutOnTop c ps"
  shows "filter isPath ps \<noteq> []"
proof -
  from assms obtain p t cl earlier where r: "rev ps = PaintedPath p t cl # earlier"
    by (auto simp: cutoutOnTop_def split: list.splits painted.splits)
  have "PaintedPath p t cl \<in> set (rev ps)"
    by (simp add: r)
  then have "PaintedPath p t cl \<in> set ps"
    by simp
  moreover have "isPath (PaintedPath p t cl)"
    by simp
  ultimately show ?thesis
    unfolding filter_empty_conv by blast
qed

text \<open>
  C8 (as amended). The compositor never reads the cutout path: the composite is the same
  whatever the cutout path of the model, no path is painted into it, its only clip
  region is the outline path, and so the cutout is neither drawn on top nor clipped
  against.
\<close>

theorem cutout_never_drawn_nor_clipped:
  "generatePrintFile host (m\<lparr>cameraPath := p\<rparr>) d = generatePrintFile host m d
   \<and> filter isPath (painting (callsOf (generatePrintFile host m d))) = []
   \<and> set (clipPaths (callsOf (generatePrintFile host m d))) \<subseteq> {svgPath m}
   \<and> list_all (\<lambda>q. clippingOf q = [(svgPath m, nativeFrame m)])
        (painting (callsOf (generatePrintFile host m d)))
   \<and> \<not> cutoutOnTop (cameraPath m) (painting (callsOf (generatePrintFile host m d)))"
proof -
  have a: "generatePrintFile host (m\<lparr>cameraPath := p\<rparr>) d = generatePrintFile host m d"
    by (simp add: generatePrintFile_def drawCalls_cameraPath split: option.split)
  have cases: "callsOf (generatePrintFile host m d) = []
      \<or> (\<exists>img. callsOf (generatePrintFile host m d) = drawCalls m d img)"
    by (cases "decode host (case imageSrc d of None \<Rightarrow> [] | Some s \<Rightarrow> s)")
      (auto simp: generatePrintFile_def callsOf_def)
  have b: "filter isPath (painting (callsOf (generatePrintFile host m d))) = []"
    using cases by (auto simp: painting_drawCalls filter_empty_conv painting_Nil)
  have c: "set (clipPaths (callsOf (generatePrintFile host m d))) \<subseteq> {svgPath m}"
    using cases by (auto simp: clipPaths_drawCalls clipPaths_Nil)
  have e: "list_all (\<lambda>q. clippingOf q = [(svgPath m, nativeFrame m)])
        (painting (callsOf (generatePrintFile host m d)))"
    using cases by (auto simp: painting_drawCalls list_all_iff painting_Nil)
  have f: "\<not> cutoutOnTop (cameraPath m) (painting (callsOf (generatePrintFile host m d)))"
    using b cutoutOnTop_needs_path by blast
  from a b c e f show ?thesis by blast
qed

theorem cutout_never_drawn_nor_clipped_witness:
  "truthy (cameraPath scenarioModel)
   \<and> filter isPath (painting (callsOf (generatePrintFile scenarioHost scenarioModel labelledDesign))) = []
   \<and> generatePrintFile scenarioHost (scenarioModel\<lparr>cameraPath := []\<rparr>) labelledDesign
     = generatePrintFile scenarioHost scenarioModel labelledDesign"
proof -
  have t: "truthy (cameraPath scenarioModel)"
    by (simp add: scenarioModel_def truthy_def)
  from t cutout_never_drawn_nor_clipped
    [where host = scenarioHost and m = scenarioModel and p = "[]" and d = labelledDesign]
  show ?thesis by blast
qed

text \<open>
  For a model with a non-empty cutout path, the last thing the compositor paints is not
  the cutout.
\<close>

theorem cutout_on_top_counterexample:
  "truthy (cameraPath scenarioModel)
   \<and> \<not> cutoutOnTop (cameraPath scenarioModel)
        (painting (callsOf (generatePrintFile scenarioHost scenarioModel labelledDesign)))"
proof -
  have c: "callsOf (generatePrintFile scenarioHost scenarioModel labelledDesign)
      = drawCalls scenarioModel labelledDesign scenarioImage"
    by (simp add: callsOf_def generatePrintFile_ok [OF scenario_decodes(1) scenario_decodes(3)])
  have t: "textElements labelledDesign \<noteq> []"
    by (simp add: labelledDesign_def)
  have "filter isPath (painting (drawCalls scenarioModel labelledDesign scenarioImage)) = []"
    by (simp add: painting_drawCalls labelledDesign_def)
  then have "\<not> cutoutOnTop (cameraPath scenarioModel)
        (painting (drawCalls scenarioModel labelledDesign scenarioImage))"
    using cutoutOnTop_needs_path by blast
  then have n: "\<not> cutoutOnTop (cameraPath scenarioModel)
        (painting (callsOf (generatePrintFile scenarioHost scenarioModel labelledDesign)))"
    by (simp add: c)
  have "truthy (cameraPath scenarioModel)"
    by (simp add: scenarioModel_def truthy_def)
  with n show ?thesis by blast
qed

section \<open>Auto-fit\<close>

lemma handleAutoFill_idem: "handleAutoFill sel (handleAutoFill sel d) = handleAutoFill sel d"
  by (simp add: handleAutoFill_def Let_def)

text \<open>
  C6. For a design with a loaded image of natural size \<open>iw\<close> by \<open>ih\<close> and a selected model,
  auto-fit sets \<open>scale\<close> to \<open>max (width / iw) (height / ih)\<close> and the offset and the
  rotation to zero. Applied twice it gives what it gives applied once; this holds of
  every design, with or without an image or a model.
\<close>

theorem auto_fit_cover_and_idempotent:
  assumes "imageSrc d = Some src" and "src \<noteq> []"
    and "imgWidth d = Some iw" and "iw \<noteq> 0"
    and "imgHeight d = Some ih" and "ih \<noteq> 0"
  shows "handleAutoFill (Some m) d =
           d\<lparr>scale := max (width m / iw) (height m / ih),
             design_x := 0, design_y := 0, rotation := 0\<rparr>
       \<and> handleAutoFill (Some m) (handleAutoFill (Some m) d) = handleAutoFill (Some m) d
       \<and> (\<forall>sel d'. handleAutoFill sel (handleAutoFill sel d') = handleAutoFill sel d')"
proof -
  have "handleAutoFill (Some m) d =
           d\<lparr>scale := max (width m / iw) (height m / ih),
             design_x := 0, design_y := 0, rotation := 0\<rparr>"
    using assms by (simp add: handleAutoFill_def falsyString_def falsyNumber_def Let_def)
  moreover have "handleAutoFill (Some m) (handleAutoFill (Some m) d) = handleAutoFill (Some m) d"
    by (rule handleAutoFill_idem)
  moreover have "\<forall>sel d'. handleAutoFill sel (handleAutoFill sel d') = handleAutoFill sel d'"
    by (simp add: handleAutoFill_idem)
  ultimately show ?thesis
    by blast
qed

theorem auto_fit_cover_and_idempotent_witness:
  "handleAutoFill (Some scenarioModel) (scenarioDesign\<lparr>scale := 3, design_x := 7, rotation := 45\<rparr>)
     = scenarioDesign\<lparr>scale := 1 / 4\<rparr>"
proof -
  have a: "imageSrc (scenarioDesign\<lparr>scale := 3, design_x := 7, rotation := 45\<rparr>)
             = Some ''data:image/png;base64,AAAA''"
    "''data:image/png;base64,AAAA'' \<noteq> []"
    "imgWidth (scenarioDesign\<lparr>scale := 3, design_x := 7, rotation := 45\<rparr>) = Some 600"
    "(600::real) \<noteq> 0"
    "imgHeight (scenarioDesign\<lparr>scale := 3, design_x := 7, rotation := 45\<rparr>) = Some 800"
    "(800::real) \<noteq> 0"
    by (simp_all add: scenarioDesign_def)
  from auto_fit_cover_and_idempotent [OF a, of scenarioModel]
  show ?thesis
    by (simp add: scenarioModel_def scenarioDesign_def)
qed

section \<open>Interactive zoom\<close>

lemma clamp_inRange: "inRange (max 0.1 (min 10 x))"
  by (simp add: inRange_def)

text \<open>A pinch that divides by a distance other than zero stores a scale of the range.\<close>

lemma pinch_clamp_finite:
  "b \<noteq> 0 \<Longrightarrow>
   mathMax 0.1 (mathMin 10 (jsTimes a (jsDivide c b))) = Finite (max 0.1 (min 10 (a * (c / b))))"
  by (simp add: jsDivide_def)

lemma step_when_apart:
  assumes "startDistance ed \<noteq> Some 0" and "apart e" and "es \<noteq> 0"
  shows "\<exists>ed'. handle es ed e = Held ed' \<and> startDistance ed' \<noteq> Some 0
           \<and> (zooms ed e \<longrightarrow> inRange (scale (design ed')))
           \<and> (\<not> zooms ed e \<longrightarrow> scale (design ed') = scale (design ed))"
proof (cases e)
  case (Wheel deltaY modKey)
  then show ?thesis
    using assms(1) by (simp add: handleWheel_def Let_def clamp_inRange)
next
  case (TouchStart touches)
  then show ?thesis
    using assms(1,2) by (auto simp: handleTouchStart_def)
next
  case (TouchMove touches)
  show ?thesis
  proof (cases "length touches = 2 \<and> startDistance ed \<noteq> None")
    case True
    then obtain sd where sd: "startDistance ed = Some sd"
      by auto
    with assms(1) have "sd \<noteq> 0"
      by simp
    then show ?thesis
      using True sd TouchMove assms(1)
      by (simp add: handleTouchMove_def Let_def pinch_clamp_finite clamp_inRange)
  next
    case False
    then show ?thesis
      using TouchMove assms(1,3)
      by (auto simp: handleTouchMove_def Let_def jsDivide_def)
  qed
next
  case TouchEnd
  then show ?thesis
    by (simp add: handleTouchEnd_def)
qed

lemma run_when_apart:
  assumes "startDistance ed \<noteq> Some 0" and "list_all apart evs" and "es \<noteq> 0"
  shows "\<exists>ed'. run es ed evs = Held ed'
           \<and> (anyZoom es ed evs \<or> inRange (scale (design ed)) \<longrightarrow> inRange (scale (design ed')))"
  using assms(1,2)
proof (induction evs arbitrary: ed)
  case Nil
  then show ?case by simp
next
  case (Cons e evs)
  from Cons.prems have a: "apart e" and r: "list_all apart evs"
    by simp_all
  from step_when_apart [OF Cons.prems(1) a assms(3)]
  obtain ed1 where s: "handle es ed e = Held ed1" and d: "startDistance ed1 \<noteq> Some 0"
    and z: "zooms ed e \<longrightarrow> inRange (scale (design ed1))"
    and k: "\<not> zooms ed e \<longrightarrow> scale (design ed1) = scale (design ed)"
    by blast
  from Cons.IH [OF d r]
  obtain ed' where f: "run es ed1 evs = Held ed'"
    and i: "anyZoom es ed1 evs \<or> inRange (scale (design ed1)) \<longrightarrow> inRange (scale (design ed'))"
    by blast
  have "anyZoom es ed (e # evs) \<or> inRange (scale (design ed)) \<longrightarrow> inRange (scale (design ed'))"
    using s z k i by auto
  then show ?case
    using s f by simp
qed

text \<open>
  Away from the pinch that starts with both fingers on one point, and with a fit of the
  case other than zero, the handlers keep the scale of the image between 0.1 and 10 from
  the first zoom on.
\<close>

lemma zoom_in_range_when_apart:
  assumes "list_all apart evs" and "es \<noteq> 0" and "anyZoom es (mounted d) evs"
  shows "scaleInRange (run es (mounted d) evs)"
proof -
  have "startDistance (mounted d) \<noteq> Some 0"
    by (simp add: mounted_def)
  from run_when_apart [OF this assms(1,2)] assms(3)
  show ?thesis by auto
qed

lemma zoom_gesture_value:
  "run 1 (mounted scenarioDesign) zoomGesture
     = Held ((mounted scenarioDesign)
         \<lparr>design := scenarioDesign\<lparr>scale := 2.1\<rparr>, initialScale := 1.05\<rparr>)"
  by (simp add: zoomGesture_def mounted_def scenarioDesign_def handleWheel_def
      handleTouchStart_def handleTouchMove_def handleTouchEnd_def getTouchDistance_def
      falsyString_def jsDivide_def Let_def)

text \<open>
  C10. The claim: after any sequence of wheel and touch events with a zoom in it, the
  scale of the image lies between 0.1 and 10. The code breaks it: on a pinch whose two
  touches are reported at one point and stay there, the distance at the start is 0, the
  ratio is \<open>0 / 0\<close>, and the clamp of \<^verbatim>\<open>Math.max\<close> and \<^verbatim>\<open>Math.min\<close> hands NaN on to the
  design.
\<close>

theorem coincident_pinch_scale_nan:
  "anyZoom 1 (mounted scenarioDesign) coincidentPinch
   \<and> run 1 (mounted scenarioDesign) coincidentPinch = ScaleNaN
   \<and> \<not> scaleInRange (run 1 (mounted scenarioDesign) coincidentPinch)"
proof -
  have r: "run 1 (mounted scenarioDesign) coincidentPinch = ScaleNaN"
    by (simp add: coincidentPinch_def mounted_def scenarioDesign_def handleTouchStart_def
        handleTouchMove_def getTouchDistance_def falsyString_def jsDivide_def Let_def)
  have z: "anyZoom 1 (mounted scenarioDesign) coincidentPinch"
    by (simp add: coincidentPinch_def mounted_def scenarioDesign_def handleTouchStart_def
        getTouchDistance_def falsyString_def)
  from r z show ?thesis by simp
qed

end
